theory Spec2Isabelle
  imports Complex_Main
begin

section \<open>Python values\<close>

text \<open>
  The script \<^verbatim>\<open>daily-steps.py\<close> handles JSON documents returned by two remote
  services. A value is \<^verbatim>\<open>None\<close>, a bool, an int, a float, a str, a list or a dict
  with string keys. A dict is an association list; the first binding of a key is the
  one that counts. Floats are idealised as exact rationals: there is no rounding error,
  no NaN, no infinity and no overflow in this model.
\<close>

datatype pyval =
    PNone
  | PBool bool
  | PInt int
  | PFloat rat
  | PStr string
  | PList "pyval list"
  | PDict "(string \<times> pyval) list"

text \<open>
  The exceptions the script can meet. \<open>RemoteError msg\<close> is any exception raised by a
  call to one of the two remote clients; \<open>msg\<close> is what \<^verbatim>\<open>str(e)\<close> yields.
\<close>

datatype exn =
    TypeError
  | AttributeError
  | KeyError
  | IndexError
  | ValueError
  | RemoteError string

definition bindE :: "exn + 'a \<Rightarrow> ('a \<Rightarrow> exn + 'b) \<Rightarrow> exn + 'b" where
  "bindE m f = (case m of Inl e \<Rightarrow> Inl e | Inr x \<Rightarrow> f x)"

text \<open>Bools count as the ints 0 and 1, as in Python.\<close>

fun num_val :: "pyval \<Rightarrow> rat option" where
  "num_val (PBool b) = Some (if b then 1 else 0)"
| "num_val (PInt i) = Some (of_int i)"
| "num_val (PFloat r) = Some r"
| "num_val _ = None"

text \<open>\<^verbatim>\<open>bool(v)\<close>, the test behind \<^verbatim>\<open>if v\<close> and \<^verbatim>\<open>not v\<close>.\<close>

fun py_truthy :: "pyval \<Rightarrow> bool" where
  "py_truthy PNone = False"
| "py_truthy (PBool b) = b"
| "py_truthy (PInt i) = (i \<noteq> 0)"
| "py_truthy (PFloat r) = (r \<noteq> 0)"
| "py_truthy (PStr s) = (s \<noteq> [])"
| "py_truthy (PList xs) = (xs \<noteq> [])"
| "py_truthy (PDict kvs) = (kvs \<noteq> [])"

text \<open>\<^verbatim>\<open>a == b\<close>: numbers by value, lists element by element, dicts key by key.\<close>

fun py_eq :: "pyval \<Rightarrow> pyval \<Rightarrow> bool"
  and py_eq_list :: "pyval list \<Rightarrow> pyval list \<Rightarrow> bool"
  and py_eq_items :: "(string \<times> pyval) list \<Rightarrow> (string \<times> pyval) list \<Rightarrow> bool"
where
  "py_eq (PList xs) (PList ys) = py_eq_list xs ys"
| "py_eq (PDict a) (PDict b) = (set (map fst a) = set (map fst b) \<and> py_eq_items a b)"
| "py_eq (PStr s) (PStr t) = (s = t)"
| "py_eq PNone PNone = True"
| "py_eq a b = (case (num_val a, num_val b) of (Some x, Some y) \<Rightarrow> x = y | _ \<Rightarrow> False)"
| "py_eq_list [] [] = True"
| "py_eq_list (x # xs) (y # ys) = (py_eq x y \<and> py_eq_list xs ys)"
| "py_eq_list _ _ = False"
| "py_eq_items [] b = True"
| "py_eq_items ((k, x) # a) b =
     ((case map_of b k of None \<Rightarrow> False | Some y \<Rightarrow> py_eq x y) \<and> py_eq_items a b)"

definition py_ne :: "pyval \<Rightarrow> pyval \<Rightarrow> bool" where
  "py_ne a b = (\<not> py_eq a b)"

text \<open>
  \<^verbatim>\<open>a >= b\<close>: defined between numbers, between strings and between lists; every
  other pair raises \<^verbatim>\<open>TypeError\<close>. Lists compare at their first differing position.
\<close>

fun str_ge :: "string \<Rightarrow> string \<Rightarrow> bool" where
  "str_ge _ [] = True"
| "str_ge [] (_ # _) = False"
| "str_ge (c # cs) (d # ds) =
     (if c = d then str_ge cs ds else (of_char d :: nat) < of_char c)"

fun py_ge :: "pyval \<Rightarrow> pyval \<Rightarrow> exn + bool"
  and py_ge_list :: "pyval list \<Rightarrow> pyval list \<Rightarrow> exn + bool"
where
  "py_ge (PList xs) (PList ys) = py_ge_list xs ys"
| "py_ge (PStr s) (PStr t) = Inr (str_ge s t)"
| "py_ge a b =
     (case (num_val a, num_val b) of (Some x, Some y) \<Rightarrow> Inr (y \<le> x) | _ \<Rightarrow> Inl TypeError)"
| "py_ge_list _ [] = Inr True"
| "py_ge_list [] (_ # _) = Inr False"
| "py_ge_list (x # xs) (y # ys) = (if py_eq x y then py_ge_list xs ys else py_ge x y)"

text \<open>\<^verbatim>\<open>d.get(k, default)\<close>: only a dict has the method.\<close>

fun py_get :: "pyval \<Rightarrow> string \<Rightarrow> pyval \<Rightarrow> exn + pyval" where
  "py_get (PDict kvs) k dflt = Inr (case map_of kvs k of None \<Rightarrow> dflt | Some v \<Rightarrow> v)"
| "py_get _ k dflt = Inl AttributeError"

text \<open>\<^verbatim>\<open>d[k]\<close> with a string key \<open>k\<close>.\<close>

fun py_item :: "pyval \<Rightarrow> string \<Rightarrow> exn + pyval" where
  "py_item (PDict kvs) k = (case map_of kvs k of None \<Rightarrow> Inl KeyError | Some v \<Rightarrow> Inr v)"
| "py_item _ k = Inl TypeError"

text \<open>\<^verbatim>\<open>xs[0]\<close>. A dict of this model has string keys only, so the key 0 is missing.\<close>

fun py_first :: "pyval \<Rightarrow> exn + pyval" where
  "py_first (PList []) = Inl IndexError"
| "py_first (PList (x # _)) = Inr x"
| "py_first (PStr []) = Inl IndexError"
| "py_first (PStr (c # _)) = Inr (PStr [c])"
| "py_first (PDict _) = Inl KeyError"
| "py_first _ = Inl TypeError"

text \<open>\<^verbatim>\<open>len(v)\<close>.\<close>

fun py_len :: "pyval \<Rightarrow> exn + nat" where
  "py_len (PList xs) = Inr (length xs)"
| "py_len (PStr s) = Inr (length s)"
| "py_len (PDict kvs) = Inr (length kvs)"
| "py_len _ = Inl TypeError"

text \<open>\<^verbatim>\<open>sub in s\<close> on strings.\<close>

fun starts_with :: "string \<Rightarrow> string \<Rightarrow> bool" where
  "starts_with [] _ = True"
| "starts_with (_ # _) [] = False"
| "starts_with (c # cs) (d # ds) = (c = d \<and> starts_with cs ds)"

fun str_contains :: "string \<Rightarrow> string \<Rightarrow> bool" where
  "str_contains sub [] = (sub = [])"
| "str_contains sub (d # ds) = (starts_with sub (d # ds) \<or> str_contains sub ds)"

text \<open>\<^verbatim>\<open>k in v\<close> with a string \<open>k\<close>: a key of a dict, an element of a list, a substring.\<close>

fun py_in :: "string \<Rightarrow> pyval \<Rightarrow> exn + bool" where
  "py_in k (PDict kvs) = Inr (k \<in> set (map fst kvs))"
| "py_in k (PList xs) = Inr (list_ex (py_eq (PStr k)) xs)"
| "py_in k (PStr s) = Inr (str_contains k s)"
| "py_in k _ = Inl TypeError"

text \<open>\<^verbatim>\<open>a / b\<close> with a non-zero numeric constant \<open>b\<close>: a float.\<close>

definition py_truediv :: "pyval \<Rightarrow> rat \<Rightarrow> exn + pyval" where
  "py_truediv a b = (case num_val a of None \<Rightarrow> Inl TypeError | Some x \<Rightarrow> Inr (PFloat (x / b)))"

text \<open>\<^verbatim>\<open>round(x, nd)\<close> on a float: to the nearest multiple of \<open>10^-nd\<close>, a tie to the even one.\<close>

definition round_half_even :: "rat \<Rightarrow> int" where
  "round_half_even y =
     (let f = \<lfloor>y\<rfloor>; d = y - of_int f
      in if d < 1 / 2 then f else if 1 / 2 < d then f + 1 else if even f then f else f + 1)"

definition py_round :: "rat \<Rightarrow> nat \<Rightarrow> rat" where
  "py_round x nd = of_int (round_half_even (x * 10 ^ nd)) / 10 ^ nd"

text \<open>
  \<^verbatim>\<open>int(v)\<close>: a number is truncated towards zero; a string is parsed as a decimal
  literal (surrounding whitespace, an optional sign, digits with single underscores
  between them), \<^verbatim>\<open>ValueError\<close> otherwise; anything else is a \<^verbatim>\<open>TypeError\<close>.
\<close>

definition is_space :: "char \<Rightarrow> bool" where
  "is_space c =
     (c \<in> set [CHR '' '', CHR 0x09, CHR 0x0A, CHR 0x0B, CHR 0x0C, CHR 0x0D,
                CHR 0x1C, CHR 0x1D, CHR 0x1E, CHR 0x1F])"

definition is_digit :: "char \<Rightarrow> bool" where
  "is_digit c = ((48::nat) \<le> of_char c \<and> (of_char c :: nat) \<le> 57)"

definition strip :: "string \<Rightarrow> string" where
  "strip s = rev (dropWhile is_space (rev (dropWhile is_space s)))"

text \<open>\<open>digits acc prev s\<close>: \<open>prev\<close> tells whether the character before \<open>s\<close> was a digit.\<close>

fun digits :: "nat \<Rightarrow> bool \<Rightarrow> string \<Rightarrow> nat option" where
  "digits acc prev [] = (if prev then Some acc else None)"
| "digits acc prev (c # cs) =
     (if is_digit c then digits (10 * acc + (of_char c - 48)) True cs
      else if c = CHR ''_'' \<and> prev then digits acc False cs
      else None)"

definition int_of_str :: "string \<Rightarrow> exn + int" where
  "int_of_str s =
     (case strip s of
        [] \<Rightarrow> Inl ValueError
      | c # cs \<Rightarrow>
          (if c = CHR ''-'' then
             (case digits 0 False cs of None \<Rightarrow> Inl ValueError | Some n \<Rightarrow> Inr (- int n))
           else if c = CHR ''+'' then
             (case digits 0 False cs of None \<Rightarrow> Inl ValueError | Some n \<Rightarrow> Inr (int n))
           else
             (case digits 0 False (c # cs) of None \<Rightarrow> Inl ValueError | Some n \<Rightarrow> Inr (int n))))"

definition trunc :: "rat \<Rightarrow> int" where
  "trunc r = (if 0 \<le> r then \<lfloor>r\<rfloor> else \<lceil>r\<rceil>)"

fun py_int :: "pyval \<Rightarrow> exn + pyval" where
  "py_int (PBool b) = Inr (PInt (if b then 1 else 0))"
| "py_int (PInt i) = Inr (PInt i)"
| "py_int (PFloat r) = Inr (PInt (trunc r))"
| "py_int (PStr s) = bindE (int_of_str s) (\<lambda>i. Inr (PInt i))"
| "py_int _ = Inl TypeError"

fun is_dict :: "pyval \<Rightarrow> bool" where
  "is_dict (PDict _) = True"
| "is_dict _ = False"

fun is_list :: "pyval \<Rightarrow> bool" where
  "is_list (PList _) = True"
| "is_list _ = False"

text \<open>\<^verbatim>\<open>isinstance(v, (int, float, str))\<close>; a bool is an int.\<close>

fun is_int_float_str :: "pyval \<Rightarrow> bool" where
  "is_int_float_str (PBool _) = True"
| "is_int_float_str (PInt _) = True"
| "is_int_float_str (PFloat _) = True"
| "is_int_float_str (PStr _) = True"
| "is_int_float_str _ = False"

section \<open>The sleep-metrics extractor\<close>

text \<open>
  \<^verbatim>\<open>extract_sleep_metrics(sleep_data)\<close>, lines 90 to 114. The result is the pair
  \<^verbatim>\<open>(sleep_duration, sleep_score)\<close>, or the exception that escapes.
\<close>

definition nested_sleep_score :: "pyval \<Rightarrow> exn + pyval" where
  "nested_sleep_score daily_sleep =
     bindE (py_in ''sleepScores'' daily_sleep) (\<lambda>has_scores.
     if \<not> has_scores then Inr (PInt 0) else
     bindE (py_item daily_sleep ''sleepScores'') (\<lambda>scores.
     if \<not> py_truthy scores then Inr (PInt 0) else
     bindE (py_get scores ''overall'' (PDict [])) (\<lambda>overall.
     if is_dict overall then
       bindE (py_in ''value'' overall) (\<lambda>has_value.
       if has_value then bindE (py_item overall ''value'') py_int
       else Inr (PInt 0))
     else if is_int_float_str overall then py_int overall
     else Inr (PInt 0))))"

definition extract_sleep_metrics :: "pyval \<Rightarrow> exn + pyval \<times> pyval" where
  "extract_sleep_metrics sleep_data =
     (if \<not> py_truthy sleep_data then Inr (PInt 0, PInt 0)
      else if is_list sleep_data \<and> py_truthy sleep_data then
        bindE (py_first sleep_data) (\<lambda>sleep_entry.
        bindE (py_get sleep_entry ''sleepTimeSeconds'' (PInt 0)) (\<lambda>secs.
        bindE (py_truediv secs 3600) (\<lambda>sleep_duration.
        bindE (py_get sleep_entry ''sleepScore'' (PInt 0)) (\<lambda>sleep_score.
        Inr (sleep_duration, sleep_score)))))
      else if is_dict sleep_data then
        bindE (py_in ''dailySleepDTO'' sleep_data) (\<lambda>nested.
        if nested then
          bindE (py_item sleep_data ''dailySleepDTO'') (\<lambda>daily_sleep.
          bindE (py_get daily_sleep ''sleepTimeSeconds'' (PInt 0)) (\<lambda>secs.
          bindE (py_truediv secs 3600) (\<lambda>sleep_duration.
          bindE (nested_sleep_score daily_sleep) (\<lambda>sleep_score.
          Inr (sleep_duration, sleep_score)))))
        else
          bindE (py_get sleep_data ''sleepTimeSeconds'' (PInt 0)) (\<lambda>secs.
          bindE (py_truediv secs 3600) (\<lambda>sleep_duration.
          bindE (py_get sleep_data ''sleepScore'' (PInt 0)) (\<lambda>sleep_score.
          Inr (sleep_duration, sleep_score)))))
      else Inr (PInt 0, PInt 0))"

section \<open>The remote services\<close>

text \<open>
  Every call to a remote client and every \<^verbatim>\<open>time.sleep\<close> is recorded, in order, in a
  trace. Printing is not recorded. A date of the collector's range is a day number.
\<close>

datatype event =
    Sleep rat
  | Login
  | GetDailySteps int
  | GetSleepData pyval
  | Query pyval pyval
  | Update pyval pyval
  | Create pyval pyval

text \<open>
  The environment of one run: the current day, the three table identifiers read with
  \<^verbatim>\<open>os.getenv\<close> (\<open>PNone\<close> when unset) and the two remote services. A service answers
  a call from the trace so far and the call's arguments: it returns a value or raises.
\<close>

record env =
  today :: int
  NOTION_DB_ID :: pyval
  NOTION_STEPS_DB_ID :: pyval
  NOTION_WELLNESS_DB_ID :: pyval
  garmin_login :: "event list \<Rightarrow> exn option"
  garmin_get_daily_steps :: "event list \<Rightarrow> int \<Rightarrow> exn + pyval"
  garmin_get_sleep_data :: "event list \<Rightarrow> pyval \<Rightarrow> exn + pyval"
  databases_query :: "event list \<Rightarrow> pyval \<Rightarrow> pyval \<Rightarrow> exn + pyval"
  pages_update :: "event list \<Rightarrow> pyval \<Rightarrow> pyval \<Rightarrow> exn option"
  pages_create :: "event list \<Rightarrow> pyval \<Rightarrow> pyval \<Rightarrow> exn option"

type_synonym 'a io = "event list \<Rightarrow> (exn + 'a) \<times> event list"

definition bindIO :: "'a io \<Rightarrow> ('a \<Rightarrow> 'b io) \<Rightarrow> 'b io" where
  "bindIO m f tr = (case m tr of (Inl e, tr') \<Rightarrow> (Inl e, tr') | (Inr x, tr') \<Rightarrow> f x tr')"

definition pureIO :: "exn + 'a \<Rightarrow> 'a io" where
  "pureIO r tr = (r, tr)"

text \<open>\<^verbatim>\<open>try: m except Exception as e: print(...)\<close>\<close>

definition catch_all :: "unit io \<Rightarrow> unit io" where
  "catch_all m tr = (case m tr of (Inl e, tr') \<Rightarrow> (Inr (), tr') | (Inr x, tr') \<Rightarrow> (Inr x, tr'))"

definition call_query :: "env \<Rightarrow> pyval \<Rightarrow> pyval \<Rightarrow> pyval io" where
  "call_query E database_id flt tr =
     (databases_query E tr database_id flt, tr @ [Query database_id flt])"

definition call_update :: "env \<Rightarrow> pyval \<Rightarrow> pyval \<Rightarrow> unit io" where
  "call_update E page_id properties tr =
     (case pages_update E tr page_id properties of None \<Rightarrow> Inr () | Some e \<Rightarrow> Inl e,
      tr @ [Update page_id properties])"

definition call_create :: "env \<Rightarrow> pyval \<Rightarrow> pyval \<Rightarrow> unit io" where
  "call_create E parent properties tr =
     (case pages_create E tr parent properties of None \<Rightarrow> Inr () | Some e \<Rightarrow> Inl e,
      tr @ [Create parent properties])"

text \<open>
  \<^verbatim>\<open>"429" in str(e) or "Too Many Requests" in str(e)\<close>. The texts of the built-in
  exceptions that can arise in the guarded blocks contain neither.
\<close>

fun is_rate_limit :: "exn \<Rightarrow> bool" where
  "is_rate_limit (RemoteError msg) =
     (str_contains ''429'' msg \<or> str_contains ''Too Many Requests'' msg)"
| "is_rate_limit _ = False"

section \<open>The steps collector\<close>

text \<open>The elements \<^verbatim>\<open>daily_steps += steps\<close> appends.\<close>

fun py_iter :: "pyval \<Rightarrow> exn + pyval list" where
  "py_iter (PList xs) = Inr xs"
| "py_iter (PStr s) = Inr (map (\<lambda>c. PStr [c]) s)"
| "py_iter (PDict kvs) = Inr (map (\<lambda>kv. PStr (fst kv)) kvs)"
| "py_iter _ = Inl TypeError"

definition daterange :: "int \<Rightarrow> int list" where
  "daterange t =
     (let startdate = t - 7
      in map (\<lambda>x. startdate + int x) [0 ..< nat ((t - startdate) + 1)])"

text \<open>
  The loop of \<^verbatim>\<open>get_all_daily_steps\<close>, lines 13 to 28, over the days still to fetch.
  The recursive call of line 25 starts the loop again on the whole range with an empty
  list and \<open>retry_count + 1\<close>.
\<close>

function steps_loop ::
  "env \<Rightarrow> nat \<Rightarrow> int list \<Rightarrow> pyval list \<Rightarrow> event list \<Rightarrow> pyval list \<times> event list"
where
  "steps_loop E retry_count [] daily_steps tr = (daily_steps, tr)"
| "steps_loop E retry_count (d # ds) daily_steps tr =
     (case bindE (garmin_get_daily_steps E tr d) py_iter of
        Inr steps \<Rightarrow>
          steps_loop E retry_count ds (daily_steps @ steps)
            (tr @ [GetDailySteps d, Sleep (1 / 2)])
      | Inl e \<Rightarrow>
          if is_rate_limit e then
            if retry_count < 3 then
              steps_loop E (retry_count + 1) (daterange (today E)) []
                (tr @ [GetDailySteps d, Sleep (10 * 2 ^ retry_count)])
            else
              steps_loop E retry_count ds daily_steps
                (tr @ [GetDailySteps d, Sleep (10 * 2 ^ retry_count)])
          else steps_loop E retry_count ds daily_steps (tr @ [GetDailySteps d]))"
  by pat_completeness auto
termination
  by (relation "measures [\<lambda>(E, rc, ds, acc, tr). 3 - rc, \<lambda>(E, rc, ds, acc, tr). length ds]")
    auto

definition get_all_daily_steps :: "env \<Rightarrow> nat \<Rightarrow> event list \<Rightarrow> pyval list \<times> event list" where
  "get_all_daily_steps E retry_count tr = steps_loop E retry_count (daterange (today E)) [] tr"

section \<open>The steps table\<close>

definition walking_filter :: "pyval \<Rightarrow> pyval" where
  "walking_filter activity_date =
     PDict [(''and'', PList
       [PDict [(''property'', PStr ''Date''), (''date'', PDict [(''equals'', activity_date)])],
        PDict [(''property'', PStr ''Activity Type''),
               (''title'', PDict [(''equals'', PStr ''Walking'')])]])]"

definition daily_steps_exist :: "env \<Rightarrow> pyval \<Rightarrow> pyval \<Rightarrow> pyval io" where
  "daily_steps_exist E database_id activity_date =
     bindIO (call_query E database_id (walking_filter activity_date)) (\<lambda>query.
     pureIO (bindE (py_item query ''results'') (\<lambda>results.
       if py_truthy results then bindE (py_item query ''results'') py_first
       else Inr PNone)))"

text \<open>\<^verbatim>\<open>existing_props[name]['number'] != new_steps.get(key)\<close>\<close>

definition number_differs :: "pyval \<Rightarrow> string \<Rightarrow> pyval \<Rightarrow> string \<Rightarrow> exn + bool" where
  "number_differs existing_props name new_steps key =
     bindE (py_item existing_props name) (\<lambda>prop.
     bindE (py_item prop ''number'') (\<lambda>stored.
     bindE (py_get new_steps key PNone) (\<lambda>new. Inr (py_ne stored new))))"

text \<open>Lines 41 to 49. \<^verbatim>\<open>or\<close> stops at the first operand that is true.\<close>

definition steps_need_update :: "pyval \<Rightarrow> pyval \<Rightarrow> exn + bool" where
  "steps_need_update existing_steps new_steps =
     bindE (py_item existing_steps ''properties'') (\<lambda>existing_props.
     bindE (number_differs existing_props ''Total Steps'' new_steps ''totalSteps'') (\<lambda>c1.
     if c1 then Inr True else
     bindE (number_differs existing_props ''Step Goal'' new_steps ''stepGoal'') (\<lambda>c2.
     if c2 then Inr True else
     bindE (number_differs existing_props ''Total Distance (km)'' new_steps ''totalDistance'')
       (\<lambda>c3.
     if c3 then Inr True else
     bindE (py_item existing_props ''Activity Type'') (\<lambda>prop.
     bindE (py_item prop ''title'') (\<lambda>title. Inr (py_ne title (PStr ''Walking''))))))))"

text \<open>\<^verbatim>\<open>round(v, nd)\<close>: an int stays an int.\<close>

fun py_round_val :: "pyval \<Rightarrow> nat \<Rightarrow> exn + pyval" where
  "py_round_val (PFloat r) nd = Inr (PFloat (py_round r nd))"
| "py_round_val (PInt i) nd = Inr (PInt i)"
| "py_round_val (PBool b) nd = Inr (PInt (if b then 1 else 0))"
| "py_round_val _ nd = Inl TypeError"

definition walking_title :: pyval where
  "walking_title = PDict [(''title'', PList [PDict [(''text'', PDict [(''content'', PStr ''Walking'')])]])]"

text \<open>Lines 53 to 59: the properties an update sends.\<close>

definition update_properties :: "pyval \<Rightarrow> exn + pyval" where
  "update_properties new_steps =
     bindE (py_get new_steps ''totalDistance'' (PInt 0)) (\<lambda>total_distance.
     bindE (py_get new_steps ''totalSteps'' PNone) (\<lambda>total_steps.
     bindE (py_get new_steps ''stepGoal'' PNone) (\<lambda>step_goal.
     bindE (py_truediv total_distance 1000) (\<lambda>km.
     bindE (py_round_val km 2) (\<lambda>distance.
     Inr (PDict
       [(''Activity Type'', walking_title),
        (''Total Steps'', PDict [(''number'', total_steps)]),
        (''Step Goal'', PDict [(''number'', step_goal)]),
        (''Total Distance (km)'', PDict [(''number'', distance)])]))))))"

definition update_daily_steps :: "env \<Rightarrow> pyval \<Rightarrow> pyval \<Rightarrow> unit io" where
  "update_daily_steps E existing_steps new_steps =
     bindIO (pureIO (update_properties new_steps)) (\<lambda>properties.
     bindIO (pureIO (py_item existing_steps ''id'')) (\<lambda>page_id.
     call_update E page_id properties))"

text \<open>Lines 64 to 71: the properties a create sends.\<close>

definition create_properties :: "pyval \<Rightarrow> exn + pyval" where
  "create_properties steps =
     bindE (py_get steps ''totalDistance'' (PInt 0)) (\<lambda>total_distance.
     bindE (py_get steps ''calendarDate'' PNone) (\<lambda>calendar_date.
     bindE (py_get steps ''totalSteps'' PNone) (\<lambda>total_steps.
     bindE (py_get steps ''stepGoal'' PNone) (\<lambda>step_goal.
     bindE (py_truediv total_distance 1000) (\<lambda>km.
     bindE (py_round_val km 2) (\<lambda>distance.
     Inr (PDict
       [(''Activity Type'', walking_title),
        (''Date'', PDict [(''date'', PDict [(''start'', calendar_date)])]),
        (''Total Steps'', PDict [(''number'', total_steps)]),
        (''Step Goal'', PDict [(''number'', step_goal)]),
        (''Total Distance (km)'', PDict [(''number'', distance)])])))))))"

definition create_daily_steps :: "env \<Rightarrow> pyval \<Rightarrow> pyval \<Rightarrow> unit io" where
  "create_daily_steps E database_id steps =
     bindIO (pureIO (create_properties steps)) (\<lambda>properties.
     call_create E (PDict [(''database_id'', database_id)]) properties)"

section \<open>Sleep data\<close>

text \<open>Lines 74 to 88. No exception escapes: every failure ends in \<^verbatim>\<open>None\<close>.\<close>

function get_sleep_data ::
  "env \<Rightarrow> pyval \<Rightarrow> nat \<Rightarrow> event list \<Rightarrow> pyval \<times> event list"
where
  "get_sleep_data E date retry_count tr =
     (case garmin_get_sleep_data E tr date of
        Inr sleep_data \<Rightarrow> (sleep_data, tr @ [GetSleepData date, Sleep (1 / 2)])
      | Inl e \<Rightarrow>
          if is_rate_limit e then
            if retry_count < 3 then
              get_sleep_data E date (retry_count + 1)
                (tr @ [GetSleepData date, Sleep (10 * 2 ^ retry_count)])
            else (PNone, tr @ [GetSleepData date, Sleep (10 * 2 ^ retry_count)])
          else (PNone, tr @ [GetSleepData date]))"
  by pat_completeness auto
termination
  by (relation "measure (\<lambda>(E, date, rc, tr). 3 - rc)") auto

declare get_sleep_data.simps [simp del]

section \<open>The wellness table\<close>

text \<open>
  The names of the two checkbox properties that start with an emoji, as the UTF-8
  bytes of the source text (lines 152 and 153).
\<close>

definition sleep_flag_name :: string where
  "sleep_flag_name = [CHR 0xF0, CHR 0x9F, CHR 0x98, CHR 0xB4] @ ''7+ hrs Sleep, 85+ Score''"

definition exercise_flag_name :: string where
  "exercise_flag_name =
     [CHR 0xF0, CHR 0x9F, CHR 0x8F, CHR 0x83, CHR 0xF0, CHR 0x9F, CHR 0x8F, CHR 0xBE,
      CHR 0xE2, CHR 0x80, CHR 0x8D, CHR 0xE2, CHR 0x99, CHR 0x82, CHR 0xEF, CHR 0xB8, CHR 0x8F]
     @ '' Excersice''"

definition exercise_filter :: "pyval \<Rightarrow> pyval" where
  "exercise_filter steps_date =
     PDict [(''and'', PList
       [PDict [(''property'', PStr ''Date''), (''date'', PDict [(''equals'', steps_date)])],
        PDict [(''property'', PStr ''Activity Type''),
               (''select'', PDict [(''does_not_equal'', PStr ''Walking'')])]])]"

definition date_filter :: "pyval \<Rightarrow> pyval" where
  "date_filter steps_date =
     PDict [(''property'', PStr ''Date''), (''date'', PDict [(''equals'', steps_date)])]"

definition wellness_properties :: "pyval \<Rightarrow> bool \<Rightarrow> bool \<Rightarrow> bool \<Rightarrow> pyval" where
  "wellness_properties steps_date steps_goal_met sleep_goal_met exercise_logged =
     PDict
       [(''Date'', PDict [(''date'', PDict [(''start'', steps_date)])]),
        (''15000 Steps'', PDict [(''checkbox'', PBool steps_goal_met)]),
        (sleep_flag_name, PDict [(''checkbox'', PBool sleep_goal_met)]),
        (exercise_flag_name, PDict [(''checkbox'', PBool exercise_logged)])]"

text \<open>\<^verbatim>\<open>sleep_duration >= 7 and sleep_score >= 85\<close>: the score is compared only when
  the duration passes.\<close>

definition sleep_goal :: "pyval \<Rightarrow> pyval \<Rightarrow> exn + bool" where
  "sleep_goal sleep_duration sleep_score =
     bindE (py_ge sleep_duration (PInt 7)) (\<lambda>long_enough.
     if long_enough then py_ge sleep_score (PInt 85) else Inr False)"

text \<open>\<^verbatim>\<open>len(exercise_activities['results']) > 0\<close>\<close>

definition has_results :: "pyval \<Rightarrow> exn + bool" where
  "has_results response =
     bindE (py_item response ''results'') (\<lambda>results.
     bindE (py_len results) (\<lambda>n. Inr (0 < n)))"

text \<open>Lines 156 to 170, the guarded block: update the first row found, else create one.\<close>

definition write_wellness :: "env \<Rightarrow> pyval \<Rightarrow> pyval \<Rightarrow> pyval \<Rightarrow> unit io" where
  "write_wellness E wellness_database_id existing_entry properties =
     catch_all
       (bindIO (pureIO (py_item existing_entry ''results'')) (\<lambda>results.
        if py_truthy results then
          bindIO (pureIO (bindE (py_item existing_entry ''results'') (\<lambda>rs.
                          bindE (py_first rs) (\<lambda>page. py_item page ''id'')))) (\<lambda>page_id.
          call_update E page_id properties)
        else call_create E (PDict [(''database_id'', wellness_database_id)]) properties))"

text \<open>Lines 116 to 170.\<close>

definition update_wellness_database :: "env \<Rightarrow> pyval \<Rightarrow> pyval \<Rightarrow> unit io" where
  "update_wellness_database E wellness_database_id steps =
     (if \<not> py_truthy wellness_database_id then pureIO (Inr ())
      else
        bindIO (pureIO (py_get steps ''calendarDate'' PNone)) (\<lambda>steps_date.
        bindIO (pureIO (py_get steps ''totalSteps'' (PInt 0))) (\<lambda>total_steps.
        bindIO (pureIO (py_get steps ''stepGoal'' (PInt 10000))) (\<lambda>step_goal.
        bindIO (\<lambda>tr. case get_sleep_data E steps_date 0 tr of (v, tr') \<Rightarrow> (Inr v, tr'))
          (\<lambda>sleep_data.
        bindIO (pureIO (extract_sleep_metrics sleep_data)) (\<lambda>metrics.
        bindIO (pureIO (py_ge total_steps step_goal)) (\<lambda>steps_goal_met.
        bindIO (pureIO (sleep_goal (fst metrics) (snd metrics))) (\<lambda>sleep_goal_met.
        bindIO (call_query E (NOTION_DB_ID E) (exercise_filter steps_date))
          (\<lambda>exercise_activities.
        bindIO (pureIO (has_results exercise_activities)) (\<lambda>exercise_logged.
        bindIO (call_query E wellness_database_id (date_filter steps_date))
          (\<lambda>existing_entry.
        write_wellness E wellness_database_id existing_entry
          (wellness_properties steps_date steps_goal_met sleep_goal_met exercise_logged)
        )))))))))))"

section \<open>The batch\<close>

text \<open>The body of the loop of \<^verbatim>\<open>main\<close>, lines 201 to 209, for one record.\<close>

definition sync_steps :: "env \<Rightarrow> pyval \<Rightarrow> unit io" where
  "sync_steps E steps =
     bindIO (pureIO (py_get steps ''calendarDate'' PNone)) (\<lambda>steps_date.
     bindIO (daily_steps_exist E (NOTION_STEPS_DB_ID E) steps_date) (\<lambda>existing_steps.
     bindIO (pureIO (if py_truthy existing_steps
                     then steps_need_update existing_steps steps else Inr False))
       (\<lambda>changed.
     if changed then update_daily_steps E existing_steps steps
     else if \<not> py_truthy existing_steps
       then create_daily_steps E (NOTION_STEPS_DB_ID E) steps
     else pureIO (Inr ()))))"

definition process_record :: "env \<Rightarrow> pyval \<Rightarrow> unit io" where
  "process_record E steps =
     bindIO (sync_steps E steps) (\<lambda>_.
     update_wellness_database E (NOTION_WELLNESS_DB_ID E) steps)"

fun main_loop :: "env \<Rightarrow> pyval list \<Rightarrow> unit io" where
  "main_loop E [] = pureIO (Inr ())"
| "main_loop E (steps # rest) = bindIO (process_record E steps) (\<lambda>_. main_loop E rest)"

text \<open>Lines 194 to 209: what \<^verbatim>\<open>main\<close> does once logged in.\<close>

definition process_all :: "env \<Rightarrow> unit io" where
  "process_all E tr =
     (case get_all_daily_steps E 0 tr of (daily_steps, tr') \<Rightarrow> main_loop E daily_steps tr')"

text \<open>
  Lines 172 to 209. The result is \<open>Inr ()\<close> when \<^verbatim>\<open>main\<close> returns and \<open>Inl e\<close> when the
  exception \<open>e\<close> escapes it.
\<close>

definition main :: "env \<Rightarrow> unit io" where
  "main E tr =
     (case garmin_login E tr of
        None \<Rightarrow> process_all E (tr @ [Login])
      | Some e \<Rightarrow>
          if is_rate_limit e then
            (case garmin_login E (tr @ [Login, Sleep 10]) of
               None \<Rightarrow> process_all E (tr @ [Login, Sleep 10, Login])
             | Some e2 \<Rightarrow> (Inr (), tr @ [Login, Sleep 10, Login]))
          else (Inr (), tr @ [Login]))"

section \<open>Observations on traces and inputs\<close>


fun is_login :: "event \<Rightarrow> bool" where
  "is_login Login = True"
| "is_login _ = False"

fun is_fetch :: "event \<Rightarrow> bool" where
  "is_fetch (GetDailySteps _) = True"
| "is_fetch _ = False"

fun wait_of :: "event \<Rightarrow> rat list" where
  "wait_of (Sleep s) = [s]"
| "wait_of _ = []"

definition waits :: "event list \<Rightarrow> rat list" where
  "waits tr = concat (map wait_of tr)"

definition logins :: "event list \<Rightarrow> nat" where
  "logins tr = length (filter is_login tr)"

fun is_write :: "event \<Rightarrow> bool" where
  "is_write (Update _ _) = True"
| "is_write (Create _ _) = True"
| "is_write _ = False"

text \<open>An operation that adds no event of the kind \<open>p\<close> to the trace.\<close>

definition silent :: "(event \<Rightarrow> bool) \<Rightarrow> 'a io \<Rightarrow> bool" where
  "silent p m = (\<forall>tr. filter p (snd (m tr)) = filter p tr)"

text \<open>An operation that, when it raises, has not written to a table.\<close>

definition clean_failure :: "'a io \<Rightarrow> bool" where
  "clean_failure m =
     (\<forall>tr e. fst (m tr) = Inl e \<longrightarrow> filter is_write (snd (m tr)) = filter is_write tr)"

text \<open>Neither a login nor a write: what the fetches, the waits and the queries are.\<close>

definition only_active :: "(event \<Rightarrow> bool) \<Rightarrow> bool" where
  "only_active p = (\<forall>ev. p ev \<longrightarrow> is_login ev \<or> is_write ev)"





text \<open>The names of the properties of an object, in order.\<close>

fun py_keys :: "pyval \<Rightarrow> string list" where
  "py_keys (PDict kvs) = map fst kvs"
| "py_keys _ = []"

text \<open>The distance of a step record in metres; a missing field counts as 0.\<close>

fun distance_metres :: "pyval \<Rightarrow> rat option" where
  "distance_metres (PDict kvs) =
     (case map_of kvs ''totalDistance'' of None \<Rightarrow> Some 0 | Some v \<Rightarrow> num_val v)"
| "distance_metres _ = None"

section \<open>Concrete runs\<close>

text \<open>An environment in which every call succeeds and every table is empty.\<close>

definition quiet_env :: env where
  "quiet_env =
     \<lparr>today = 7,
      NOTION_DB_ID = PStr ''activities'',
      NOTION_STEPS_DB_ID = PStr ''steps'',
      NOTION_WELLNESS_DB_ID = PStr ''wellness'',
      garmin_login = (\<lambda>tr. None),
      garmin_get_daily_steps = (\<lambda>tr d. Inr (PList [])),
      garmin_get_sleep_data = (\<lambda>tr date. Inr PNone),
      databases_query = (\<lambda>tr db flt. Inr (PDict [(''results'', PList [])])),
      pages_update = (\<lambda>tr page props. None),
      pages_create = (\<lambda>tr parent props. None)\<rparr>"

definition too_many :: exn where
  "too_many = RemoteError ''429 Client Error: Too Many Requests''"

text \<open>Every fetch of steps and of sleep data is rate-limited.\<close>

definition limited_env :: env where
  "limited_env =
     quiet_env\<lparr>garmin_get_daily_steps := (\<lambda>tr d. Inl too_many),
               garmin_get_sleep_data := (\<lambda>tr date. Inl too_many)\<rparr>"

text \<open>A record of one day, as the fitness service returns it.\<close>

definition walk_record :: "string \<Rightarrow> int \<Rightarrow> pyval" where
  "walk_record day n =
     PDict [(''calendarDate'', PStr day), (''totalSteps'', PInt n),
            (''stepGoal'', PInt 10000), (''totalDistance'', PInt 6400)]"



text \<open>
  The row of the steps table that \<^verbatim>\<open>create_daily_steps\<close> wrote for
  \<open>walk_record ''2024-01-05'' 8000\<close>, as a query returns it.
\<close>

definition stored_properties :: pyval where
  "stored_properties =
     PDict
       [(''Activity Type'', walking_title),
        (''Date'', PDict [(''date'', PDict [(''start'', PStr ''2024-01-05'')])]),
        (''Total Steps'', PDict [(''number'', PInt 8000)]),
        (''Step Goal'', PDict [(''number'', PInt 10000)]),
        (''Total Distance (km)'', PDict [(''number'', PFloat (32 / 5))])]"

definition stored_row :: pyval where
  "stored_row = PDict [(''id'', PStr ''page-1''), (''properties'', stored_properties)]"

text \<open>The same row with the category label as a plain string.\<close>

definition plain_title_row :: pyval where
  "plain_title_row =
     PDict [(''id'', PStr ''page-1''),
            (''properties'', PDict
               [(''Activity Type'', PDict [(''title'', PStr ''Walking'')]),
                (''Total Steps'', PDict [(''number'', PInt 8000)]),
                (''Step Goal'', PDict [(''number'', PInt 10000)]),
                (''Total Distance (km)'', PDict [(''number'', PFloat (32 / 5))])])]"

definition stored_env :: env where
  "stored_env =
     quiet_env\<lparr>databases_query := (\<lambda>tr db flt. Inr (PDict [(''results'', PList [stored_row])]))\<rparr>"



definition big_walk :: pyval where
  "big_walk =
     PDict [(''calendarDate'', PStr ''2024-01-05''), (''totalSteps'', PInt 15000),
            (''stepGoal'', PInt 10000), (''totalDistance'', PInt 11250)]"

text \<open>The activity table cannot be queried.\<close>

definition unavailable :: exn where
  "unavailable = RemoteError ''503 Service Unavailable''"

definition broken_query_env :: env where
  "broken_query_env =
     quiet_env\<lparr>
       garmin_get_daily_steps := (\<lambda>tr d.
         Inr (PList (if d = 0 \<or> d = 1 then [big_walk] else []))),
       databases_query := (\<lambda>tr db flt.
         if db = PStr ''activities'' then Inl unavailable
         else Inr (PDict [(''results'', PList [])]))\<rparr>"

text \<open>Every write to a table fails.\<close>

definition broken_write_env :: env where
  "broken_write_env =
     quiet_env\<lparr>pages_update := (\<lambda>tr page props. Some unavailable),
               pages_create := (\<lambda>tr parent props. Some unavailable)\<rparr>"

text \<open>The login is refused, without and with a rate limit.\<close>

definition refused_env :: env where
  "refused_env = quiet_env\<lparr>garmin_login := (\<lambda>tr. Some (RemoteError ''401 Unauthorized''))\<rparr>"

definition throttled_login_env :: env where
  "throttled_login_env = quiet_env\<lparr>garmin_login := (\<lambda>tr. Some too_many)\<rparr>"

section \<open>Properties\<close>

subsection \<open>Reference cases of the extractor\<close>

lemma int_of_str_88: "int_of_str ''88'' = Inr 88"
  by (simp add: int_of_str_def strip_def is_space_def is_digit_def)

text \<open>
  C3. The four reference inputs of the extractor: \<^verbatim>\<open>None\<close> and the empty list give
  (0, 0); a one-entry list with 25200 seconds and score 90 gives (7.0, 90); the nested
  object with 27000 seconds and the overall score value "88" gives (7.5, 88).
\<close>

theorem extract_sleep_metrics_reference_cases:
  "extract_sleep_metrics PNone = Inr (PInt 0, PInt 0)
   \<and> extract_sleep_metrics (PList []) = Inr (PInt 0, PInt 0)
   \<and> extract_sleep_metrics
        (PList [PDict [(''sleepTimeSeconds'', PInt 25200), (''sleepScore'', PInt 90)]])
      = Inr (PFloat 7, PInt 90)
   \<and> extract_sleep_metrics
        (PDict [(''dailySleepDTO'',
           PDict [(''sleepTimeSeconds'', PInt 27000),
                  (''sleepScores'', PDict [(''overall'', PDict [(''value'', PStr ''88'')])])])])
      = Inr (PFloat (15 / 2), PInt 88)"
  by (simp add: extract_sleep_metrics_def nested_sleep_score_def bindE_def py_truediv_def
      int_of_str_88)

subsection \<open>The steps collector and the retry schedule\<close>

lemma daterange_eq: "daterange t = [t - 7, t - 6, t - 5, t - 4, t - 3, t - 2, t - 1, t]"
proof -
  have "[0 ..< 8] = [0, 1, 2, 3, 4, 5, 6, 7::nat]" by (simp add: upt_rec)
  then show ?thesis by (simp add: daterange_def)
qed


lemma limited_restart:
  assumes "\<forall>tr d. \<exists>e. garmin_get_daily_steps E tr d = Inl e \<and> is_rate_limit e"
    and "rc < 3"
  shows "steps_loop E rc (d # ds) acc tr =
           steps_loop E (Suc rc) (daterange (today E)) []
                  (tr @ [GetDailySteps d, Sleep (10 * 2 ^ rc)])"
proof -
  from assms obtain e where "garmin_get_daily_steps E tr d = Inl e" "is_rate_limit e"
    by blast
  with assms(2) show ?thesis by (simp add: bindE_def)
qed

lemma limited_skip:
  assumes "\<forall>tr d. \<exists>e. garmin_get_daily_steps E tr d = Inl e \<and> is_rate_limit e"
    and "\<not> rc < 3"
  shows "steps_loop E rc (d # ds) acc tr =
           steps_loop E rc ds acc (tr @ [GetDailySteps d, Sleep (10 * 2 ^ rc)])"
proof -
  from assms obtain e where "garmin_get_daily_steps E tr d = Inl e" "is_rate_limit e"
    by blast
  with assms(2) show ?thesis by (simp add: bindE_def)
qed

lemma all_limited_last_pass:
  assumes "\<forall>tr d. \<exists>e. garmin_get_daily_steps E tr d = Inl e \<and> is_rate_limit e"
    and "\<not> rc < 3"
  shows "steps_loop E rc ds acc tr =
           (acc, tr @ concat (map (\<lambda>d. [GetDailySteps d, Sleep (10 * 2 ^ rc)]) ds))"
proof (induction ds arbitrary: tr)
  case Nil
  show ?case by simp
next
  case (Cons d ds)
  have "steps_loop E rc (d # ds) acc tr
          = steps_loop E rc ds acc (tr @ [GetDailySteps d, Sleep (10 * 2 ^ rc)])"
    by (rule limited_skip [OF assms])
  also have "\<dots> = (acc, (tr @ [GetDailySteps d, Sleep (10 * 2 ^ rc)])
                        @ concat (map (\<lambda>d. [GetDailySteps d, Sleep (10 * 2 ^ rc)]) ds))"
    by (rule Cons.IH)
  finally show ?case by simp
qed

lemma all_limited_steps:
  assumes "\<forall>tr d. \<exists>e. garmin_get_daily_steps E tr d = Inl e \<and> is_rate_limit e"
  shows "get_all_daily_steps E 0 tr =
     ([], tr @ [GetDailySteps (today E - 7), Sleep 10,
                GetDailySteps (today E - 7), Sleep 20,
                GetDailySteps (today E - 7), Sleep 40]
             @ concat (map (\<lambda>d. [GetDailySteps d, Sleep 80]) (daterange (today E))))"
proof -
  let ?d = "today E - 7"
  obtain ds where ds: "daterange (today E) = ?d # ds"
    by (simp add: daterange_eq)
  have "get_all_daily_steps E 0 tr = steps_loop E 0 (?d # ds) [] tr"
    by (simp only: get_all_daily_steps_def ds)
  also have "\<dots> = steps_loop E (Suc 0) (?d # ds) [] (tr @ [GetDailySteps ?d, Sleep (10 * 2 ^ 0)])"
    using limited_restart [OF assms, of 0 ?d ds "[]" tr] by (simp add: ds del: steps_loop.simps)
  also have "\<dots> = steps_loop E (Suc (Suc 0)) (?d # ds) []
       ((tr @ [GetDailySteps ?d, Sleep (10 * 2 ^ 0)]) @ [GetDailySteps ?d, Sleep (10 * 2 ^ Suc 0)])"
    using limited_restart [OF assms, of "Suc 0" ?d ds "[]"] by (simp add: ds del: steps_loop.simps)
  also have "\<dots> = steps_loop E (Suc (Suc (Suc 0))) (daterange (today E)) []
       (((tr @ [GetDailySteps ?d, Sleep (10 * 2 ^ 0)]) @ [GetDailySteps ?d, Sleep (10 * 2 ^ Suc 0)])
          @ [GetDailySteps ?d, Sleep (10 * 2 ^ Suc (Suc 0))])"
    using limited_restart [OF assms, of "Suc (Suc 0)" ?d ds "[]"]
    by (simp del: steps_loop.simps)
  also have "\<dots> = ([], (((tr @ [GetDailySteps ?d, Sleep (10 * 2 ^ 0)])
          @ [GetDailySteps ?d, Sleep (10 * 2 ^ Suc 0)])
          @ [GetDailySteps ?d, Sleep (10 * 2 ^ Suc (Suc 0))])
          @ concat (map (\<lambda>d. [GetDailySteps d, Sleep (10 * 2 ^ Suc (Suc (Suc 0)))])
              (daterange (today E))))"
    by (rule all_limited_last_pass [OF assms]) simp
  finally show ?thesis by simp
qed

lemma limited_sleep_retry:
  assumes "\<forall>tr. \<exists>e. garmin_get_sleep_data E tr date = Inl e \<and> is_rate_limit e"
    and "rc < 3"
  shows "get_sleep_data E date rc tr =
       get_sleep_data E date (Suc rc) (tr @ [GetSleepData date, Sleep (10 * 2 ^ rc)])"
proof -
  from assms obtain e where "garmin_get_sleep_data E tr date = Inl e" "is_rate_limit e"
    by blast
  with assms(2) show ?thesis by (subst get_sleep_data.simps) simp
qed

lemma limited_sleep_stop:
  assumes "\<forall>tr. \<exists>e. garmin_get_sleep_data E tr date = Inl e \<and> is_rate_limit e"
    and "\<not> rc < 3"
  shows "get_sleep_data E date rc tr = (PNone, tr @ [GetSleepData date, Sleep (10 * 2 ^ rc)])"
proof -
  from assms obtain e where "garmin_get_sleep_data E tr date = Inl e" "is_rate_limit e"
    by blast
  with assms(2) show ?thesis by (subst get_sleep_data.simps) simp
qed

lemma all_limited_sleep:
  assumes "\<forall>tr. \<exists>e. garmin_get_sleep_data E tr date = Inl e \<and> is_rate_limit e"
  shows "get_sleep_data E date 0 tr =
     (PNone, tr @ [GetSleepData date, Sleep 10, GetSleepData date, Sleep 20,
                   GetSleepData date, Sleep 40, GetSleepData date, Sleep 80])"
proof -
  let ?g = "GetSleepData date"
  have "get_sleep_data E date 0 tr = get_sleep_data E date (Suc 0) (tr @ [?g, Sleep (10 * 2 ^ 0)])"
    by (rule limited_sleep_retry [OF assms]) simp
  also have "\<dots> = get_sleep_data E date (Suc (Suc 0))
      ((tr @ [?g, Sleep (10 * 2 ^ 0)]) @ [?g, Sleep (10 * 2 ^ Suc 0)])"
    by (rule limited_sleep_retry [OF assms]) simp
  also have "\<dots> = get_sleep_data E date (Suc (Suc (Suc 0)))
      (((tr @ [?g, Sleep (10 * 2 ^ 0)]) @ [?g, Sleep (10 * 2 ^ Suc 0)])
         @ [?g, Sleep (10 * 2 ^ Suc (Suc 0))])"
    by (rule limited_sleep_retry [OF assms]) simp
  also have "\<dots> = (PNone, (((tr @ [?g, Sleep (10 * 2 ^ 0)]) @ [?g, Sleep (10 * 2 ^ Suc 0)])
         @ [?g, Sleep (10 * 2 ^ Suc (Suc 0))]) @ [?g, Sleep (10 * 2 ^ Suc (Suc (Suc 0)))])"
    by (rule limited_sleep_stop [OF assms]) simp
  finally show ?thesis by simp
qed





lemma limited_env_steps:
  "\<forall>tr d. \<exists>e. garmin_get_daily_steps limited_env tr d = Inl e \<and> is_rate_limit e"
  by (simp add: limited_env_def quiet_env_def too_many_def)

lemma limited_env_sleep:
  "\<forall>tr. \<exists>e. garmin_get_sleep_data limited_env tr date = Inl e \<and> is_rate_limit e"
  by (simp add: limited_env_def quiet_env_def too_many_def)

lemma limited_env_today: "today limited_env = 7"
  by (simp add: limited_env_def quiet_env_def)

text \<open>
  C5, as stated, fails for the steps collector: with every fetch rate-limited it does
  not return after the fourth failed attempt. It makes eleven attempts and waits
  eleven times, the last eight times 80 seconds.
\<close>

theorem steps_retry_counterexample:
  "length (filter is_fetch (snd (get_all_daily_steps limited_env 0 []))) = 11
   \<and> waits (snd (get_all_daily_steps limited_env 0 []))
       = [10, 20, 40, 80, 80, 80, 80, 80, 80, 80, 80]
   \<and> waits (snd (get_all_daily_steps limited_env 0 [])) \<noteq> [10, 20, 40, 80]"
  by (simp add: all_limited_steps [OF limited_env_steps] limited_env_today daterange_eq
      waits_def)

text \<open>
  C5, amended. When every fetch is rate-limited, the wait at attempt counter \<open>k\<close> is
  \<open>10 * 2^k\<close> seconds. The sleep fetch waits 10, 20, 40 and 80 seconds and returns
  \<^verbatim>\<open>None\<close> after its fourth failed attempt. The steps collector waits 10, 20 and 40
  seconds, each time starting the range again; at counter 3 it waits 80 seconds after
  each day of the range, skips that day, and returns the accumulated, empty list after
  the last day. Neither raises.
\<close>

theorem rate_limited_fetch_schedule:
  assumes "\<forall>tr d. \<exists>e. garmin_get_daily_steps E tr d = Inl e \<and> is_rate_limit e"
    and "\<forall>tr. \<exists>e. garmin_get_sleep_data E tr date = Inl e \<and> is_rate_limit e"
  shows "get_sleep_data E date 0 tr =
           (PNone, tr @ [GetSleepData date, Sleep 10, GetSleepData date, Sleep 20,
                         GetSleepData date, Sleep 40, GetSleepData date, Sleep 80])
       \<and> get_all_daily_steps E 0 tr =
           ([], tr @ [GetDailySteps (today E - 7), Sleep 10,
                      GetDailySteps (today E - 7), Sleep 20,
                      GetDailySteps (today E - 7), Sleep 40]
                   @ concat (map (\<lambda>d. [GetDailySteps d, Sleep 80]) (daterange (today E))))"
  using all_limited_sleep [OF assms(2)] all_limited_steps [OF assms(1)] by simp

theorem rate_limited_fetch_schedule_witness:
  "get_sleep_data limited_env (PStr ''2024-01-05'') 0 [] =
      (PNone, [GetSleepData (PStr ''2024-01-05''), Sleep 10,
               GetSleepData (PStr ''2024-01-05''), Sleep 20,
               GetSleepData (PStr ''2024-01-05''), Sleep 40,
               GetSleepData (PStr ''2024-01-05''), Sleep 80])
   \<and> fst (get_all_daily_steps limited_env 0 []) = []
   \<and> waits (snd (get_all_daily_steps limited_env 0 []))
       = [10, 20, 40, 80, 80, 80, 80, 80, 80, 80, 80]"
  using rate_limited_fetch_schedule [OF limited_env_steps limited_env_sleep, of "PStr ''2024-01-05''" "[]"]
  by (simp add: limited_env_today daterange_eq waits_def)

subsection \<open>Writes to the steps table\<close>

lemma distance_km:
  assumes "distance_metres steps = Some m"
  shows "\<exists>v. py_get steps ''totalDistance'' (PInt 0) = Inr v
           \<and> bindE (py_truediv v 1000) (\<lambda>km. py_round_val km 2)
               = Inr (PFloat (py_round (m / 1000) 2))"
proof (cases steps)
  case (PDict kvs)
  with assms show ?thesis
    by (auto simp: py_truediv_def bindE_def split: option.splits)
qed (use assms in simp_all)

lemma is_record_get:
  assumes "distance_metres steps = Some m"
  shows "\<exists>v. py_get steps k dflt = Inr v"
  using assms by (cases steps) simp_all

lemma create_properties_distance:
  assumes "distance_metres steps = Some m"
  shows "\<exists>props. create_properties steps = Inr props
     \<and> py_item props ''Total Distance (km)''
         = Inr (PDict [(''number'', PFloat (py_round (m / 1000) 2))])"
proof -
  from distance_km [OF assms] obtain v where
    v: "py_get steps ''totalDistance'' (PInt 0) = Inr v"
       "bindE (py_truediv v 1000) (\<lambda>km. py_round_val km 2) = Inr (PFloat (py_round (m / 1000) 2))"
    by blast
  obtain a where a: "py_get steps ''calendarDate'' PNone = Inr a"
    using is_record_get [OF assms] by blast
  obtain b where b: "py_get steps ''totalSteps'' PNone = Inr b"
    using is_record_get [OF assms] by blast
  obtain c where c: "py_get steps ''stepGoal'' PNone = Inr c"
    using is_record_get [OF assms] by blast
  from v(2) obtain km where km: "py_truediv v 1000 = Inr km"
     "py_round_val km 2 = Inr (PFloat (py_round (m / 1000) 2))"
    by (auto simp: bindE_def split: sum.splits)
  show ?thesis
    by (simp add: create_properties_def v(1) a b c km bindE_def)
qed



lemma update_daily_steps_trace:
  assumes "update_properties steps = Inr props" and "py_item existing ''id'' = Inr pid"
  shows "snd (update_daily_steps E existing steps tr) = tr @ [Update pid props]"
  using assms
  by (simp add: update_daily_steps_def bindIO_def pureIO_def call_update_def)

lemma update_properties_keys:
  assumes "update_properties steps = Inr props"
  shows "py_keys props = [''Activity Type'', ''Total Steps'', ''Step Goal'', ''Total Distance (km)'']"
  using assms
  by (auto simp: update_properties_def bindE_def split: sum.splits)


lemma round_6400: "py_round (32 / 5) 2 = 32 / 5"
  by (simp add: py_round_def round_half_even_def)

lemma round_0: "py_round 0 2 = 0"
  by (simp add: py_round_def round_half_even_def)




lemma missing_distance_is_zero:
  "\<exists>props. create_properties (PDict [(''calendarDate'', PStr ''2024-01-05'')]) = Inr props
     \<and> py_item props ''Total Distance (km)'' = Inr (PDict [(''number'', PFloat 0)])"
  using create_properties_distance [of "PDict [(''calendarDate'', PStr ''2024-01-05'')]" 0]
  by (simp add: round_0)

text \<open>
  C10. An update of a row of the steps table sends nothing, or exactly the four
  properties Activity Type, Total Steps, Step Goal and Total Distance (km): the Date
  property is never among them.
\<close>

theorem update_never_sends_date:
  "snd (update_daily_steps E existing steps tr) = tr
   \<or> (\<exists>pid props. snd (update_daily_steps E existing steps tr) = tr @ [Update pid props]
        \<and> py_keys props = [''Activity Type'', ''Total Steps'', ''Step Goal'', ''Total Distance (km)'']
        \<and> ''Date'' \<notin> set (py_keys props))"
proof (cases "update_properties steps")
  case (Inl e)
  then show ?thesis by (simp add: update_daily_steps_def bindIO_def pureIO_def)
next
  case props: (Inr props)
  note keys = update_properties_keys [OF props]
  show ?thesis
  proof (cases "py_item existing ''id''")
    case (Inl e)
    with props show ?thesis by (simp add: update_daily_steps_def bindIO_def pureIO_def)
  next
    case (Inr pid)
    have "snd (update_daily_steps E existing steps tr) = tr @ [Update pid props]"
      by (rule update_daily_steps_trace [OF props Inr])
    moreover have "''Date'' \<notin> set (py_keys props)" by (simp add: keys)
    ultimately have "\<exists>pid props. snd (update_daily_steps E existing steps tr) = tr @ [Update pid props]
        \<and> py_keys props = [''Activity Type'', ''Total Steps'', ''Step Goal'', ''Total Distance (km)'']
        \<and> ''Date'' \<notin> set (py_keys props)"
      using keys by (intro exI conjI)
    then show ?thesis by (rule disjI2)
  qed
qed

lemma update_walk_record:
  "snd (update_daily_steps quiet_env stored_row (walk_record ''2024-01-05'' 8500) [])
     = [Update (PStr ''page-1'')
         (PDict [(''Activity Type'', walking_title),
                 (''Total Steps'', PDict [(''number'', PInt 8500)]),
                 (''Step Goal'', PDict [(''number'', PInt 10000)]),
                 (''Total Distance (km)'', PDict [(''number'', PFloat (32 / 5))])])]"
  by (simp add: update_daily_steps_def update_properties_def walk_record_def stored_row_def
      bindIO_def pureIO_def call_update_def bindE_def py_truediv_def round_6400)

theorem update_never_sends_date_witness:
  "snd (update_daily_steps quiet_env stored_row (walk_record ''2024-01-05'' 8500) []) \<noteq> []
   \<and> (\<exists>pid props.
         snd (update_daily_steps quiet_env stored_row (walk_record ''2024-01-05'' 8500) [])
           = [Update pid props]
         \<and> py_keys props = [''Activity Type'', ''Total Steps'', ''Step Goal'', ''Total Distance (km)'']
         \<and> ''Date'' \<notin> set (py_keys props))"
  using update_never_sends_date [of quiet_env stored_row "walk_record ''2024-01-05'' 8500" "[]"]
  by (simp add: update_walk_record)

text \<open>
  C1, at a failing input. The record of 2024-01-05 is unchanged and its row is the one
  \<^verbatim>\<open>create_daily_steps\<close> wrote for it; \<^verbatim>\<open>steps_need_update\<close> still answers true: it
  compares the stored kilometres with the record's metres, and the stored title, a
  list, with a string. The sync of that record issues an update.
\<close>

theorem unchanged_row_is_rewritten:
  "create_properties (walk_record ''2024-01-05'' 8000) = Inr stored_properties
   \<and> steps_need_update stored_row (walk_record ''2024-01-05'' 8000) = Inr True
   \<and> steps_need_update plain_title_row (walk_record ''2024-01-05'' 8000) = Inr True
   \<and> sync_steps stored_env (walk_record ''2024-01-05'' 8000) []
       = (Inr (), [Query (PStr ''steps'') (walking_filter (PStr ''2024-01-05'')),
                   Update (PStr ''page-1'')
                     (PDict [(''Activity Type'', walking_title),
                             (''Total Steps'', PDict [(''number'', PInt 8000)]),
                             (''Step Goal'', PDict [(''number'', PInt 10000)]),
                             (''Total Distance (km)'', PDict [(''number'', PFloat (32 / 5))])])])"
proof -
  have c: "create_properties (walk_record ''2024-01-05'' 8000) = Inr stored_properties"
    by (simp add: create_properties_def walk_record_def stored_properties_def bindE_def
        py_truediv_def round_6400)
  have n1: "steps_need_update stored_row (walk_record ''2024-01-05'' 8000) = Inr True"
    by (simp add: steps_need_update_def number_differs_def stored_row_def stored_properties_def
        walk_record_def bindE_def py_ne_def)
  have n2: "steps_need_update plain_title_row (walk_record ''2024-01-05'' 8000) = Inr True"
    by (simp add: steps_need_update_def number_differs_def plain_title_row_def
        walk_record_def bindE_def py_ne_def)
  have q: "daily_steps_exist stored_env (PStr ''steps'') (PStr ''2024-01-05'') []
      = (Inr stored_row, [Query (PStr ''steps'') (walking_filter (PStr ''2024-01-05''))])"
    by (simp add: daily_steps_exist_def call_query_def bindIO_def pureIO_def bindE_def
        stored_env_def quiet_env_def)
  have t: "py_truthy stored_row" by (simp add: stored_row_def)
  have u: "update_daily_steps stored_env stored_row (walk_record ''2024-01-05'' 8000)
             [Query (PStr ''steps'') (walking_filter (PStr ''2024-01-05''))]
      = (Inr (), [Query (PStr ''steps'') (walking_filter (PStr ''2024-01-05'')),
                   Update (PStr ''page-1'')
                     (PDict [(''Activity Type'', walking_title),
                             (''Total Steps'', PDict [(''number'', PInt 8000)]),
                             (''Step Goal'', PDict [(''number'', PInt 10000)]),
                             (''Total Distance (km)'', PDict [(''number'', PFloat (32 / 5))])])])"
    by (simp add: update_daily_steps_def update_properties_def walk_record_def stored_row_def
      bindIO_def pureIO_def call_update_def bindE_def py_truediv_def round_6400
      stored_env_def quiet_env_def)
  have d: "py_get (walk_record ''2024-01-05'' 8000) ''calendarDate'' PNone = Inr (PStr ''2024-01-05'')"
    by (simp add: walk_record_def)
  have s: "NOTION_STEPS_DB_ID stored_env = PStr ''steps''"
    by (simp add: stored_env_def quiet_env_def)
  have "sync_steps stored_env (walk_record ''2024-01-05'' 8000) []
       = update_daily_steps stored_env stored_row (walk_record ''2024-01-05'' 8000)
             [Query (PStr ''steps'') (walking_filter (PStr ''2024-01-05''))]"
    by (simp add: sync_steps_def bindIO_def pureIO_def d s q t n1)
  with c n1 n2 u show ?thesis by simp
qed

subsection \<open>The extractor on well-typed and on ill-typed records\<close>













subsection \<open>Events an operation cannot add\<close>

lemma silent_pure: "silent p (pureIO r)"
  by (simp add: silent_def pureIO_def)

lemma silent_bind:
  assumes "silent p m" and "\<And>x. silent p (f x)"
  shows "silent p (bindIO m f)"
proof -
  have "filter p (snd (bindIO m f tr)) = filter p tr" for tr
  proof (cases "m tr")
    case (Pair r tr')
    with assms(1) have tr': "filter p tr' = filter p tr"
      by (metis silent_def snd_conv)
    show ?thesis
    proof (cases r)
      case (Inl e)
      with Pair tr' show ?thesis by (simp add: bindIO_def)
    next
      case (Inr x)
      from assms(2) [of x] have "filter p (snd (f x tr')) = filter p tr'"
        by (simp add: silent_def)
      with Inr Pair tr' show ?thesis by (simp add: bindIO_def)
    qed
  qed
  then show ?thesis by (simp add: silent_def)
qed

lemma silent_catch_all:
  assumes "silent p m"
  shows "silent p (catch_all m)"
proof -
  have "snd (catch_all m tr) = snd (m tr)" for tr
    by (cases "m tr"; cases "fst (m tr)") (auto simp: catch_all_def split: sum.splits)
  with assms show ?thesis by (simp add: silent_def)
qed

lemma silent_call_query:
  assumes "\<not> p (Query database_id flt)"
  shows "silent p (call_query E database_id flt)"
  using assms by (simp add: silent_def call_query_def)

lemma silent_call_update:
  assumes "\<not> p (Update page_id properties)"
  shows "silent p (call_update E page_id properties)"
  using assms by (simp add: silent_def call_update_def)

lemma silent_call_create:
  assumes "\<not> p (Create parent properties)"
  shows "silent p (call_create E parent properties)"
  using assms by (simp add: silent_def call_create_def)

lemma only_active_simps:
  assumes "only_active p"
  shows "\<not> p (Sleep s)" "\<not> p (GetDailySteps d)" "\<not> p (GetSleepData date)" "\<not> p (Query a b)"
  using assms by (auto simp: only_active_def)

lemma get_sleep_data_only_active:
  assumes "only_active p"
  shows "filter p (snd (get_sleep_data E date rc tr)) = filter p tr"
proof (induction E date rc tr rule: get_sleep_data.induct)
  case (1 E date rc tr)
  show ?case
  proof (cases "garmin_get_sleep_data E tr date")
    case (Inr v)
    then show ?thesis
      by (subst get_sleep_data.simps) (simp add: only_active_simps [OF assms])
  next
    case (Inl e)
    show ?thesis
    proof (cases "is_rate_limit e \<and> rc < 3")
      case True
      with 1 [OF Inl] have "filter p (snd (get_sleep_data E date (rc + 1)
             (tr @ [GetSleepData date, Sleep (10 * 2 ^ rc)])))
           = filter p (tr @ [GetSleepData date, Sleep (10 * 2 ^ rc)])"
        by simp
      with Inl True show ?thesis
        by (subst get_sleep_data.simps) (simp add: only_active_simps [OF assms])
    next
      case False
      with Inl show ?thesis
        by (subst get_sleep_data.simps) (auto simp: only_active_simps [OF assms])
    qed
  qed
qed

lemma steps_loop_only_active:
  assumes "only_active p"
  shows "filter p (snd (steps_loop E rc ds acc tr)) = filter p tr"
proof (induction E rc ds acc tr rule: steps_loop.induct)
  case (1 E rc acc tr)
  show ?case by simp
next
  case (2 E rc d ds acc tr)
  show ?case
  proof (cases "bindE (garmin_get_daily_steps E tr d) py_iter")
    case (Inr steps)
    with "2.IH"(4) [OF Inr] show ?thesis by (simp add: only_active_simps [OF assms])
  next
    case (Inl e)
    show ?thesis
    proof (cases "is_rate_limit e")
      case True
      show ?thesis
      proof (cases "rc < 3")
        case lt: True
        with "2.IH"(1) [OF Inl True lt] Inl True show ?thesis
          by (simp add: only_active_simps [OF assms])
      next
        case ge: False
        with "2.IH"(2) [OF Inl True ge] Inl True show ?thesis
          by (simp add: only_active_simps [OF assms])
      qed
    next
      case False
      with "2.IH"(3) [OF Inl False] Inl show ?thesis
        by (simp add: only_active_simps [OF assms])
    qed
  qed
qed

lemma silent_daily_steps_exist:
  assumes "only_active p"
  shows "silent p (daily_steps_exist E db date)"
  unfolding daily_steps_exist_def
  by (intro silent_bind silent_call_query silent_pure only_active_simps [OF assms])

lemma only_active_is_login: "only_active is_login"
  by (simp add: only_active_def)

lemma only_active_is_write: "only_active is_write"
  by (simp add: only_active_def)

lemma silent_update_daily_steps: "silent is_login (update_daily_steps E existing new)"
  unfolding update_daily_steps_def
  by (intro silent_bind silent_call_update silent_pure) simp

lemma silent_create_daily_steps: "silent is_login (create_daily_steps E db steps)"
  unfolding create_daily_steps_def
  by (intro silent_bind silent_call_create silent_pure) simp

lemma silent_sync_steps: "silent is_login (sync_steps E steps)"
  unfolding sync_steps_def
  by (intro silent_bind silent_pure silent_daily_steps_exist only_active_is_login)
     (simp add: silent_update_daily_steps silent_create_daily_steps silent_pure)

lemma silent_get_sleep_data:
  assumes "only_active p"
  shows "silent p (\<lambda>tr. case get_sleep_data E date 0 tr of (v, tr') \<Rightarrow> (Inr v, tr'))"
  by (simp add: silent_def case_prod_beta get_sleep_data_only_active [OF assms])

lemma silent_write_wellness: "silent is_login (write_wellness E wid existing props)"
  unfolding write_wellness_def
  by (intro silent_catch_all silent_bind silent_pure)
     (simp add: silent_bind silent_pure silent_call_update silent_call_create)

lemma silent_update_wellness_database:
  "silent is_login (update_wellness_database E wid steps)"
  unfolding update_wellness_database_def
  by (simp add: silent_pure)
     (intro impI silent_bind silent_pure silent_call_query silent_write_wellness
        silent_get_sleep_data only_active_is_login only_active_simps [OF only_active_is_login])

lemma silent_process_record: "silent is_login (process_record E steps)"
  unfolding process_record_def
  by (intro silent_bind silent_sync_steps silent_update_wellness_database)

lemma silent_main_loop: "silent is_login (main_loop E daily_steps)"
  by (induction daily_steps) (simp_all add: silent_pure silent_bind silent_process_record)

lemma process_all_logins: "logins (snd (process_all E tr)) = logins tr"
proof (cases "get_all_daily_steps E 0 tr")
  case (Pair daily_steps tr')
  then have "filter is_login tr' = filter is_login tr"
    using steps_loop_only_active [OF only_active_is_login, of E 0 "daterange (today E)" "[]" tr]
    by (simp add: get_all_daily_steps_def)
  moreover have "filter is_login (snd (main_loop E daily_steps tr')) = filter is_login tr'"
    using silent_main_loop [of E daily_steps] by (simp add: silent_def)
  ultimately show ?thesis using Pair by (simp add: process_all_def logins_def)
qed

subsection \<open>Login\<close>

lemma logins_append: "logins (a @ b) = logins a + logins b"
  by (simp add: logins_def)

lemma main_refused:
  assumes "garmin_login E tr = Some e" and "\<not> is_rate_limit e"
  shows "main E tr = (Inr (), tr @ [Login])"
  using assms by (simp add: main_def)

lemma main_refused_twice:
  assumes "garmin_login E tr = Some e" and "is_rate_limit e"
    and "garmin_login E (tr @ [Login, Sleep 10]) = Some e2"
  shows "main E tr = (Inr (), tr @ [Login, Sleep 10, Login])"
  using assms by (simp add: main_def)

lemma main_logins:
  "logins (snd (main E tr)) =
     (case garmin_login E tr of
        None \<Rightarrow> logins tr + 1
      | Some e \<Rightarrow> if is_rate_limit e then logins tr + 2 else logins tr + 1)"
proof (cases "garmin_login E tr")
  case None
  then show ?thesis
    by (simp add: main_def process_all_logins logins_append) (simp add: logins_def)
next
  case (Some e)
  show ?thesis
  proof (cases "is_rate_limit e")
    case False
    with Some show ?thesis by (simp add: main_def logins_def)
  next
    case True
    show ?thesis
    proof (cases "garmin_login E (tr @ [Login, Sleep 10])")
      case None
      with Some True show ?thesis
        by (simp add: main_def process_all_logins logins_append) (simp add: logins_def)
    next
      case (Some e2)
      with \<open>garmin_login E tr = Some e\<close> True show ?thesis
        by (simp add: main_def logins_def)
    qed
  qed
qed

text \<open>
  C9. A login that fails with an error that is not a rate limit ends the run at once;
  a rate-limited login is tried once more after 10 seconds, and if that fails too the
  run ends: in both cases the trace holds nothing but the login attempts and the wait,
  so no step is collected and no table is read or written. A run logs in at most
  twice, and twice only after a rate-limited first attempt.
\<close>

theorem login_failure_is_fatal:
  "(\<forall>e. garmin_login E tr = Some e \<and> \<not> is_rate_limit e
        \<longrightarrow> main E tr = (Inr (), tr @ [Login]))
   \<and> (\<forall>e e2. garmin_login E tr = Some e \<and> is_rate_limit e
          \<and> garmin_login E (tr @ [Login, Sleep 10]) = Some e2
        \<longrightarrow> main E tr = (Inr (), tr @ [Login, Sleep 10, Login]))
   \<and> logins (snd (main E tr)) \<le> logins tr + 2
   \<and> (logins (snd (main E tr)) = logins tr + 2
        \<longrightarrow> (\<exists>e. garmin_login E tr = Some e \<and> is_rate_limit e))"
proof (intro conjI allI impI)
  fix e
  assume "garmin_login E tr = Some e \<and> \<not> is_rate_limit e"
  then show "main E tr = (Inr (), tr @ [Login])" by (simp add: main_refused)
next
  fix e e2
  assume "garmin_login E tr = Some e \<and> is_rate_limit e
          \<and> garmin_login E (tr @ [Login, Sleep 10]) = Some e2"
  then show "main E tr = (Inr (), tr @ [Login, Sleep 10, Login])"
    by (simp add: main_refused_twice)
next
  show "logins (snd (main E tr)) \<le> logins tr + 2"
    by (simp add: main_logins split: option.splits)
next
  assume "logins (snd (main E tr)) = logins tr + 2"
  then show "\<exists>e. garmin_login E tr = Some e \<and> is_rate_limit e"
    by (simp add: main_logins split: option.splits if_splits)
qed

theorem login_failure_is_fatal_witness:
  "main refused_env [] = (Inr (), [Login])
   \<and> main throttled_login_env [] = (Inr (), [Login, Sleep 10, Login])"
proof -
  have r: "garmin_login refused_env [] = Some (RemoteError ''401 Unauthorized'')
           \<and> \<not> is_rate_limit (RemoteError ''401 Unauthorized'')"
    by (simp add: refused_env_def quiet_env_def)
  have t: "garmin_login throttled_login_env [] = Some too_many \<and> is_rate_limit too_many
           \<and> garmin_login throttled_login_env ([] @ [Login, Sleep 10]) = Some too_many"
    by (simp add: throttled_login_env_def quiet_env_def too_many_def)
  from login_failure_is_fatal [of refused_env "[]"] r
  have "main refused_env [] = (Inr (), [] @ [Login])" by blast
  moreover from login_failure_is_fatal [of throttled_login_env "[]"] t
  have "main throttled_login_env [] = (Inr (), [] @ [Login, Sleep 10, Login])" by blast
  ultimately show ?thesis by simp
qed

subsection \<open>The wellness sync\<close>





lemma write_wellness_returns: "fst (write_wellness E wid existing props tr) = Inr ()"
proof -
  have "fst (catch_all m tr) = Inr ()" for m :: "unit io"
    by (cases "m tr"; cases "fst (m tr)") (auto simp: catch_all_def split: sum.splits)
  then show ?thesis by (simp add: write_wellness_def)
qed





lemma clean_failure_bind:
  assumes "silent is_write m" and "\<And>x. clean_failure (f x)"
  shows "clean_failure (bindIO m f)"
proof -
  have "filter is_write (snd (bindIO m f tr)) = filter is_write tr"
    if fail: "fst (bindIO m f tr) = Inl e" for tr e
  proof (cases "m tr")
    case (Pair r tr')
    with assms(1) have tr': "filter is_write tr' = filter is_write tr"
      by (metis silent_def snd_conv)
    show ?thesis
    proof (cases r)
      case (Inl e')
      with Pair tr' show ?thesis by (simp add: bindIO_def)
    next
      case (Inr x)
      with Pair fail have "fst (f x tr') = Inl e" by (simp add: bindIO_def)
      with assms(2) [of x]
      have "filter is_write (snd (f x tr')) = filter is_write tr'"
        by (simp add: clean_failure_def)
      with Inr Pair tr' show ?thesis by (simp add: bindIO_def)
    qed
  qed
  then show ?thesis by (simp add: clean_failure_def)
qed

lemma clean_failure_pure: "clean_failure (pureIO r)"
  by (simp add: clean_failure_def pureIO_def)

lemma clean_failure_write_wellness: "clean_failure (write_wellness E wid existing props)"
  by (simp add: clean_failure_def write_wellness_returns)

lemma clean_failure_update_wellness_database:
  "clean_failure (update_wellness_database E wid steps)"
  unfolding update_wellness_database_def
  by (simp add: clean_failure_pure)
     (intro impI clean_failure_bind silent_pure silent_call_query silent_get_sleep_data
        only_active_is_write only_active_simps [OF only_active_is_write]
        clean_failure_write_wellness)

lemma broken_query_sleep:
  "get_sleep_data broken_query_env date 0 tr = (PNone, tr @ [GetSleepData date, Sleep (1 / 2)])"
  by (subst get_sleep_data.simps) (simp add: broken_query_env_def quiet_env_def)

lemma broken_query_wellness:
  "update_wellness_database broken_query_env (PStr ''wellness'') big_walk tr =
     (Inl unavailable,
      tr @ [GetSleepData (PStr ''2024-01-05''), Sleep (1 / 2),
            Query (PStr ''activities'') (exercise_filter (PStr ''2024-01-05''))])"
proof -
  have db: "NOTION_DB_ID broken_query_env = PStr ''activities''"
    by (simp add: broken_query_env_def quiet_env_def)
  have q: "databases_query broken_query_env tr' (PStr ''activities'') flt = Inl unavailable"
    for tr' flt
    by (simp add: broken_query_env_def quiet_env_def)
  show ?thesis
    by (simp add: update_wellness_database_def bindIO_def pureIO_def call_query_def
        broken_query_sleep big_walk_def extract_sleep_metrics_def sleep_goal_def bindE_def db q)
qed

text \<open>
  C8, as stated, fails: the two queries of the wellness sync stand before the guarded
  block. When the activity table cannot be queried, the error leaves
  \<^verbatim>\<open>update_wellness_database\<close> and \<^verbatim>\<open>main\<close>: the run ends inside the first of
  two records, and the second record is never processed.
\<close>

theorem wellness_query_error_escapes:
  "update_wellness_database broken_query_env (PStr ''wellness'') big_walk [] =
     (Inl unavailable,
      [GetSleepData (PStr ''2024-01-05''), Sleep (1 / 2),
       Query (PStr ''activities'') (exercise_filter (PStr ''2024-01-05''))])
   \<and> fst (get_all_daily_steps broken_query_env 0 [Login]) = [big_walk, big_walk]
   \<and> fst (main broken_query_env []) = Inl unavailable
   \<and> length (filter is_write (snd (main broken_query_env []))) = 1"
proof -
  note w = broken_query_wellness
  have c: "get_all_daily_steps broken_query_env 0 [Login] =
     ([big_walk, big_walk],
      [Login] @ concat (map (\<lambda>d. [GetDailySteps d, Sleep (1 / 2)]) [0, 1, 2, 3, 4, 5, 6, 7]))"
    by (simp add: get_all_daily_steps_def daterange_eq broken_query_env_def quiet_env_def
        bindE_def)
  have s: "sync_steps broken_query_env big_walk tr =
     (Inr (), tr @ [Query (PStr ''steps'') (walking_filter (PStr ''2024-01-05'')),
                    Create (PDict [(''database_id'', PStr ''steps'')])
                      (PDict
                        [(''Activity Type'', walking_title),
                         (''Date'', PDict [(''date'', PDict [(''start'', PStr ''2024-01-05'')])]),
                         (''Total Steps'', PDict [(''number'', PInt 15000)]),
                         (''Step Goal'', PDict [(''number'', PInt 10000)]),
                         (''Total Distance (km)'', PDict [(''number'', PFloat (45 / 4))])])])"
    for tr
    by (simp add: sync_steps_def daily_steps_exist_def create_daily_steps_def
        create_properties_def bindIO_def pureIO_def call_query_def call_create_def bindE_def
        py_truediv_def big_walk_def broken_query_env_def quiet_env_def py_round_def
        round_half_even_def)
  have wid: "NOTION_WELLNESS_DB_ID broken_query_env = PStr ''wellness''"
    by (simp add: broken_query_env_def quiet_env_def)
  have l: "garmin_login broken_query_env [] = None"
    by (simp add: broken_query_env_def quiet_env_def)
  have m: "main broken_query_env [] =
     (Inl unavailable,
      [Login] @ concat (map (\<lambda>d. [GetDailySteps d, Sleep (1 / 2)]) [0, 1, 2, 3, 4, 5, 6, 7])
       @ [Query (PStr ''steps'') (walking_filter (PStr ''2024-01-05'')),
          Create (PDict [(''database_id'', PStr ''steps'')])
            (PDict
              [(''Activity Type'', walking_title),
               (''Date'', PDict [(''date'', PDict [(''start'', PStr ''2024-01-05'')])]),
               (''Total Steps'', PDict [(''number'', PInt 15000)]),
               (''Step Goal'', PDict [(''number'', PInt 10000)]),
               (''Total Distance (km)'', PDict [(''number'', PFloat (45 / 4))])]),
          GetSleepData (PStr ''2024-01-05''), Sleep (1 / 2),
          Query (PStr ''activities'') (exercise_filter (PStr ''2024-01-05''))])"
    by (simp add: main_def l process_all_def c process_record_def bindIO_def s w wid)
  from w [of "[]"] c m show ?thesis by simp
qed

text \<open>
  C8, amended. The guarded block of the wellness sync, which reads the existing-entry
  answer and issues the final create or update, always returns normally: an error of
  that create or update is caught there. Whenever an error does leave
  \<^verbatim>\<open>update_wellness_database\<close>, no create or update had been issued by it.
\<close>

theorem wellness_write_errors_are_caught:
  "fst (write_wellness E wid existing properties tr) = Inr ()
   \<and> (\<forall>e. fst (update_wellness_database E wid steps tr) = Inl e
        \<longrightarrow> filter is_write (snd (update_wellness_database E wid steps tr))
              = filter is_write tr)"
  using clean_failure_update_wellness_database [of E wid steps]
  by (simp add: write_wellness_returns clean_failure_def)


lemma broken_write_wellness:
  "write_wellness broken_write_env (PStr ''wellness'') (PDict [(''results'', PList [])]) props []
     = (Inr (), [Create (PDict [(''database_id'', PStr ''wellness'')]) props])"
  by (simp add: write_wellness_def catch_all_def bindIO_def pureIO_def call_create_def
      broken_write_env_def quiet_env_def)

theorem wellness_write_errors_are_caught_witness:
  "fst (update_wellness_database broken_query_env (PStr ''wellness'') big_walk []) = Inl unavailable
   \<and> filter is_write (snd (update_wellness_database broken_query_env (PStr ''wellness'') big_walk []))
       = []
   \<and> pages_create broken_write_env [] (PDict [(''database_id'', PStr ''wellness'')]) PNone
       = Some unavailable
   \<and> fst (write_wellness broken_write_env (PStr ''wellness'') (PDict [(''results'', PList [])])
            PNone []) = Inr ()"
proof -
  have f: "fst (update_wellness_database broken_query_env (PStr ''wellness'') big_walk [])
             = Inl unavailable"
    by (simp add: broken_query_wellness)
  have c: "pages_create broken_write_env [] (PDict [(''database_id'', PStr ''wellness'')]) PNone
       = Some unavailable"
    by (simp add: broken_write_env_def quiet_env_def)
  from wellness_write_errors_are_caught
         [of broken_query_env "PStr ''wellness''" "PDict [(''results'', PList [])]" PNone "[]"
             big_walk] f
  have "filter is_write (snd (update_wellness_database broken_query_env (PStr ''wellness'')
          big_walk [])) = filter is_write []"
    by blast
  moreover from wellness_write_errors_are_caught
         [of broken_write_env "PStr ''wellness''" "PDict [(''results'', PList [])]" PNone "[]"
             big_walk]
  have "fst (write_wellness broken_write_env (PStr ''wellness'') (PDict [(''results'', PList [])])
            PNone []) = Inr ()"
    by (rule conjunct1)
  ultimately show ?thesis using f c by simp
qed

end
